theory Spec2Isabelle
  imports Main "HOL-Library.Sublist"
begin

section \<open>Data model of \<open>src/libs/utils/unarchiver.cpp\<close>\<close>

text \<open>
  A \<open>FilePath\<close> and a \<open>QString\<close> are strings; the empty string is the empty path
  (\<open>FilePath::isEmpty\<close>). A \<open>QByteArray\<close> is a list of bytes, and a \<open>char\<close> is a byte.
\<close>

type_synonym FilePath = string
type_synonym QByteArray = string

text \<open>
  \<open>CommandLine\<close>: the executable and the argument tokens that
  \<open>CommandLine::splitArguments\<close> yields. The argument quoting of \<open>ProcessArgs\<close> is not
  part of the sources at hand; a command line built from a token list is kept as that
  list, and the raw PowerShell line as its whitespace-separated tokens.
\<close>

record CommandLine =
  executable :: FilePath
  arguments :: "string list"

record Tool =
  command :: CommandLine
  supportedMimeTypes :: "string list"
  additionalSearchDirs :: "FilePath list"

text \<open>
  The collaborators that the resolver consults, taken as parameters:
  the host platform, the two registry views read by \<open>QSettings\<close>, MIME detection
  (\<open>mimeTypeForFile\<close>, and \<open>MimeType::inherits\<close> on the detected type's name),
  \<open>FilePath::withExecutableSuffix\<close>, \<open>FilePath::searchInPath\<close> (the empty path when
  nothing is found) and \<open>FilePath::toUserOutput\<close>.
\<close>

record host =
  isWindowsHost :: bool
  registry64 :: "string \<Rightarrow> string \<Rightarrow> FilePath"
  registry32 :: "string \<Rightarrow> string \<Rightarrow> FilePath"
  mimeTypeForFile :: "FilePath \<Rightarrow> string"
  inherits :: "string \<Rightarrow> string \<Rightarrow> bool"
  withExecutableSuffix :: "FilePath \<Rightarrow> FilePath"
  searchInPath :: "FilePath \<Rightarrow> FilePath list \<Rightarrow> FilePath"
  toUserOutput :: "FilePath \<Rightarrow> string"

section \<open>Tool catalog\<close>

definition additionalInstallDirs :: "host \<Rightarrow> string \<Rightarrow> string \<Rightarrow> FilePath list" where
  "additionalInstallDirs h registryKey valueName =
     (if isWindowsHost h
      then [registry64 h registryKey valueName, registry32 h registryKey valueName]
      else [])"

definition mkTool :: "FilePath \<Rightarrow> string list \<Rightarrow> string list \<Rightarrow> FilePath list \<Rightarrow> Tool" where
  "mkTool exe args mts dirs =
     \<lparr>command = \<lparr>executable = exe, arguments = args\<rparr>,
      supportedMimeTypes = mts, additionalSearchDirs = dirs\<rparr>"

definition additionalCMakeDirs :: "host \<Rightarrow> FilePath list" where
  "additionalCMakeDirs h =
     additionalInstallDirs h (''HKEY_LOCAL_MACHINE'' @ [CHR 0x5C] @ ''SOFTWARE'' @ [CHR 0x5C] @ ''Kitware'' @ [CHR 0x5C] @ ''CMake'')
       ''InstallDir''"

definition gzipTool :: Tool where
  "gzipTool = mkTool ''gzip'' [''-d'', ''%{src}'', ''-c''] [''application/gzip''] []"

definition sTools :: "host \<Rightarrow> Tool list" where
  "sTools h =
     (if isWindowsHost h
      then [mkTool ''powershell''
              [''-command'', ''Expand-Archive'', ''-Force'', [CHR 0x27] @ ''%{src}'' @ [CHR 0x27],
               [CHR 0x27] @ ''%{dest}'' @ [CHR 0x27]]
              [''application/zip''] []]
      else []) @
     [mkTool ''unzip'' [''-o'', ''%{src}'', ''-d'', ''%{dest}''] [''application/zip''] [],
      mkTool ''7z'' [''x'', ''-o%{dest}'', ''-y'', ''-bb'', ''%{src}'']
        [''application/zip'', ''application/x-7z-compressed'']
        (additionalInstallDirs h (''HKEY_CURRENT_USER'' @ [CHR 0x5C] @ ''Software'' @ [CHR 0x5C] @ ''7-Zip'') ''Path''),
      mkTool ''cmake'' [''-E'', ''tar'', ''xvf'', ''%{src}'']
        [''application/zip'', ''application/x-tar'', ''application/x-7z-compressed'']
        (additionalCMakeDirs h),
      mkTool ''cmake'' [''-E'', ''tar'', ''xvzf'', ''%{src}'']
        [''application/x-compressed-tar''] (additionalCMakeDirs h),
      mkTool ''cmake'' [''-E'', ''tar'', ''xvJf'', ''%{src}'']
        [''application/x-xz-compressed-tar''] (additionalCMakeDirs h),
      mkTool ''cmake'' [''-E'', ''tar'', ''xvjf'', ''%{src}'']
        [''application/x-bzip-compressed-tar''] (additionalCMakeDirs h),
      mkTool ''tar'' [''xvf'', ''%{src}'']
        [''application/zip'', ''application/x-tar'', ''application/x-7z-compressed''] [],
      mkTool ''tar'' [''xvzf'', ''%{src}''] [''application/x-compressed-tar''] [],
      mkTool ''tar'' [''xvJf'', ''%{src}''] [''application/x-xz-compressed-tar''] [],
      mkTool ''tar'' [''xvjf'', ''%{src}''] [''application/x-bzip-compressed-tar''] [],
      gzipTool]"

section \<open>Tool resolver\<close>

definition supportsMimeType :: "host \<Rightarrow> string \<Rightarrow> Tool \<Rightarrow> bool" where
  "supportsMimeType h mimeType tool =
     list_ex (\<lambda>mt. inherits h mimeType mt) (supportedMimeTypes tool)"

definition toolsForMimeType :: "host \<Rightarrow> string \<Rightarrow> Tool list" where
  "toolsForMimeType h mimeType = filter (supportsMimeType h mimeType) (sTools h)"

definition toolsForFilePath :: "host \<Rightarrow> FilePath \<Rightarrow> Tool list" where
  "toolsForFilePath h fp = toolsForMimeType h (mimeTypeForFile h fp)"

definition foundExecutable :: "host \<Rightarrow> Tool \<Rightarrow> FilePath" where
  "foundExecutable h tool =
     searchInPath h (withExecutableSuffix h (executable (command tool)))
       (additionalSearchDirs tool)"

definition resolveTool :: "host \<Rightarrow> Tool \<Rightarrow> Tool option" where
  "resolveTool h tool =
     (let exe = foundExecutable h tool;
          resolvedTool = tool\<lparr>command := (command tool)\<lparr>executable := exe\<rparr>\<rparr>
      in if exe = [] then None else Some resolvedTool)"

text \<open>The loop of \<open>sourceAndCommand\<close>: the first candidate that resolves is returned.\<close>

fun firstResolved :: "host \<Rightarrow> Tool list \<Rightarrow> Tool option" where
  "firstResolved h [] = None"
| "firstResolved h (tool # tools) =
     (case resolveTool h tool of
        Some resolvedTool \<Rightarrow> Some resolvedTool
      | None \<Rightarrow> firstResolved h tools)"

fun join :: "string \<Rightarrow> string list \<Rightarrow> string" where
  "join sep [] = []"
| "join sep [x] = x"
| "join sep (x # y # ys) = x @ sep @ join sep (y # ys)"

definition formatNotSupported :: string where
  "formatNotSupported = ''File format not supported.''"

definition noExecutableFound :: "string list \<Rightarrow> string" where
  "noExecutableFound execs =
     ''Could not find any unarchiving executable in PATH ('' @ join '', '' execs @ '').''"

text \<open>\<open>expected_str<SourceAndCommand>\<close>: the error string on the left.\<close>

definition sourceAndCommand :: "host \<Rightarrow> FilePath \<Rightarrow> string + (FilePath \<times> CommandLine)" where
  "sourceAndCommand h sourceFile =
     (let tools = toolsForFilePath h sourceFile
      in if tools = [] then Inl formatNotSupported
         else case firstResolved h tools of
                Some resolvedTool \<Rightarrow> Inr (sourceFile, command resolvedTool)
              | None \<Rightarrow>
                  Inl (noExecutableFound
                         (map (\<lambda>tool. toUserOutput h (executable (command tool))) tools)))"

section \<open>Command builder\<close>

text \<open>
  \<open>QString::replace(before, after)\<close> for a non-empty \<open>before\<close>: the text is scanned from
  the left, every occurrence found is replaced and the scan goes on behind it; the
  inserted text is not scanned again. The program only passes the two placeholders.
\<close>

fun replaceAll :: "string \<Rightarrow> string \<Rightarrow> string \<Rightarrow> string" where
  "replaceAll before after [] = []"
| "replaceAll before after (c # cs) =
     (if before \<noteq> [] \<and> prefix before (c # cs)
      then after @ replaceAll before after (drop (length before) (c # cs))
      else c # replaceAll before after cs)"

definition renderArg :: "FilePath \<Rightarrow> FilePath \<Rightarrow> string \<Rightarrow> string" where
  "renderArg sourceFile destDir arg =
     replaceAll ''%{dest}'' destDir (replaceAll ''%{src}'' sourceFile arg)"

definition unarchiveCommand :: "CommandLine \<Rightarrow> FilePath \<Rightarrow> FilePath \<Rightarrow> CommandLine" where
  "unarchiveCommand commandTemplate sourceFile destDir =
     \<lparr>executable = executable commandTemplate,
      arguments = map (renderArg sourceFile destDir) (arguments commandTemplate)\<rparr>"

text \<open>\<open>contains p s\<close>: the text \<open>s\<close> has an occurrence of \<open>p\<close>.\<close>

fun contains :: "string \<Rightarrow> string \<Rightarrow> bool" where
  "contains p [] = (p = [])"
| "contains p (c # cs) = (prefix p (c # cs) \<or> contains p cs)"

text \<open>
  The substitution as the specification words it: one pass from the left that puts the
  source path for every \<open>%{src}\<close> and the destination path for every \<open>%{dest}\<close> of the
  token.
\<close>

fun specSubstitute :: "FilePath \<Rightarrow> FilePath \<Rightarrow> string \<Rightarrow> string" where
  "specSubstitute src dest [] = []"
| "specSubstitute src dest (c # cs) =
     (if prefix ''%{src}'' (c # cs) then src @ specSubstitute src dest (drop 6 (c # cs))
      else if prefix ''%{dest}'' (c # cs) then dest @ specSubstitute src dest (drop 7 (c # cs))
      else c # specSubstitute src dest cs)"

text \<open>
  A path that cannot be mistaken for a piece of a placeholder: not empty, without
  \<open>%\<close>, and not starting with a character of \<open>{src}\<close> or \<open>{dest}\<close>. Every absolute path
  \<open>/...\<close> without \<open>%\<close> is one.
\<close>

definition plainPath :: "FilePath \<Rightarrow> bool" where
  "plainPath p = (p \<noteq> [] \<and> CHR ''%'' \<notin> set p \<and> hd p \<notin> set ''{src}dest'')"

section \<open>Extraction executor\<close>

datatype DoneResult = Success | Error

definition toDoneResult :: "bool \<Rightarrow> DoneResult" where
  "toDoneResult success = (if success then Success else Error)"

text \<open>
  What \<open>start\<close> and the connected slots do to the outside, in order: the signals
  \<open>outputReceived\<close> and \<open>done\<close>, and the message that a failed \<open>QTC_ASSERT\<close> logs before it
  runs its action (the macro is in \<open>qtcassert.h\<close>, not in the sources at hand).
\<close>

datatype effect = OutputReceived string | Done DoneResult | AssertFailure string

fun isDone :: "effect \<Rightarrow> bool" where
  "isDone (Done r) = True"
| "isDone e = False"

text \<open>
  The slots connected to the process: either those of the \<open>gzip\<close> branch, which capture
  the output file, or those of the archive branch.
\<close>

datatype connections = GzipSlots FilePath | ArchiveSlots

record Process =
  processCommand :: CommandLine
  workingDirectory :: FilePath
  mergedChannels :: bool
  slots :: connections
  started :: bool

text \<open>
  The \<open>Unarchiver\<close> object, together with the files it writes (\<open>files\<close> maps the path
  of an existing file to its contents).
\<close>

record Unarchiver =
  m_sourceAndCommand :: "(FilePath \<times> CommandLine) option"
  m_destDir :: FilePath
  m_gzipFileDestName :: string
  m_process :: "Process option"
  files :: "FilePath \<rightharpoonup> QByteArray"

text \<open>
  What the platform answers during \<open>start\<close>: whether \<open>ensureWritableDir\<close> succeeded,
  whether the output file could be opened for writing, and the display texts.
\<close>

record startEnv =
  ensureWritableDir :: "FilePath \<Rightarrow> bool"
  openWriteOnly :: "FilePath \<Rightarrow> bool"
  commandToUserOutput :: "CommandLine \<Rightarrow> string"
  dirToUserOutput :: "FilePath \<Rightarrow> string"

definition fileName :: "FilePath \<Rightarrow> string" where
  "fileName p = rev (takeWhile (\<lambda>c. c \<noteq> CHR ''/'') (rev p))"

definition pathAppended :: "FilePath \<Rightarrow> string \<Rightarrow> FilePath" where
  "pathAppended dir name =
     (if name = [] then dir
      else if dir = [] then name
      else if last dir = CHR ''/'' then dir @ name
      else dir @ ''/'' @ name)"

definition runningMessage :: "startEnv \<Rightarrow> CommandLine \<Rightarrow> FilePath \<Rightarrow> string" where
  "runningMessage env cmd dir =
     ''Running '' @ commandToUserOutput env cmd @ [CHR 0x0A] @ ''in '' @ [CHR 0x22]
       @ dirToUserOutput env dir @ [CHR 0x22] @ ''.'' @ [CHR 0x0A, CHR 0x0A]"

definition start :: "startEnv \<Rightarrow> Unarchiver \<Rightarrow> Unarchiver \<times> effect list" where
  "start env u =
     (if m_process u \<noteq> None then (u, [AssertFailure ''!m_process'', Done Error])
      else case m_sourceAndCommand u of
        None \<Rightarrow> (u, [OutputReceived ''No source file set.'', Done Error])
      | Some (sourceFile, commandTemplate) \<Rightarrow>
          if m_destDir u = []
          then (u, [OutputReceived ''No destination directory set.'', Done Error])
          else
            let cmd = unarchiveCommand commandTemplate sourceFile (m_destDir u);
                ignored = ensureWritableDir env (m_destDir u)
            in if fileName (executable cmd) = ''gzip''
               then
                 let outputFile = pathAppended (m_destDir u) (m_gzipFileDestName u)
                 in if \<not> openWriteOnly env outputFile
                    then (u, [OutputReceived ''Failed to open output file.'', Done Error])
                    else (u\<lparr>m_process :=
                               Some \<lparr>processCommand = cmd, workingDirectory = m_destDir u,
                                     mergedChannels = False, slots = GzipSlots outputFile,
                                     started = True\<rparr>,
                             files := (files u)(outputFile \<mapsto> [])\<rparr>,
                          [OutputReceived (runningMessage env cmd (m_destDir u))])
               else (u\<lparr>m_process :=
                          Some \<lparr>processCommand = cmd, workingDirectory = m_destDir u,
                                mergedChannels = True, slots = ArchiveSlots,
                                started = True\<rparr>\<rparr>,
                     [OutputReceived (runningMessage env cmd (m_destDir u))]))"

text \<open>
  The notifications of the process. \<open>ReadyReadStandardOutput data written\<close> carries the
  bytes read and what \<open>QFile::write\<close> answers for them in the \<open>gzip\<close> branch (the number
  of bytes taken, or \<open>-1\<close>); \<open>ProcessDone success\<close> carries the verdict.
\<close>

datatype ProcessEvent =
    ReadyReadStandardOutput QByteArray int
  | ReadyReadStandardError QByteArray
  | ProcessDone bool

fun isProcessDone :: "ProcessEvent \<Rightarrow> bool" where
  "isProcessDone (ProcessDone success) = True"
| "isProcessDone e = False"

definition fileWrite ::
  "(FilePath \<rightharpoonup> QByteArray) \<Rightarrow> FilePath \<Rightarrow> QByteArray \<Rightarrow> int \<Rightarrow> (FilePath \<rightharpoonup> QByteArray)" where
  "fileWrite fs path data written =
     (case fs path of
        None \<Rightarrow> fs
      | Some content \<Rightarrow> fs(path \<mapsto> content @ take (nat written) data))"

fun gzipSlot :: "FilePath \<Rightarrow> Unarchiver \<Rightarrow> ProcessEvent \<Rightarrow> Unarchiver \<times> effect list" where
  "gzipSlot outputFile u (ReadyReadStandardOutput data written) =
     (u\<lparr>files := fileWrite (files u) outputFile data written\<rparr>,
      if written \<noteq> int (length data)
      then [OutputReceived ''Failed to write output file.'', Done Error]
      else [])"
| "gzipSlot outputFile u (ReadyReadStandardError data) = (u, [OutputReceived data])"
| "gzipSlot outputFile u (ProcessDone success) =
     (if \<not> success
      then (u\<lparr>files := (files u)(outputFile := None)\<rparr>,
            [OutputReceived ''Command failed.'', Done (toDoneResult success)])
      else (u, [Done (toDoneResult success)]))"

fun archiveSlot :: "Unarchiver \<Rightarrow> ProcessEvent \<Rightarrow> Unarchiver \<times> effect list" where
  "archiveSlot u (ReadyReadStandardOutput data written) = (u, [OutputReceived data])"
| "archiveSlot u (ReadyReadStandardError data) = (u, [])"
| "archiveSlot u (ProcessDone success) =
     (if \<not> success
      then (u, [OutputReceived ''Command failed.'', Done (toDoneResult success)])
      else (u, [Done (toDoneResult success)]))"

definition notify :: "Unarchiver \<Rightarrow> ProcessEvent \<Rightarrow> Unarchiver \<times> effect list" where
  "notify u ev =
     (case m_process u of
        None \<Rightarrow> (u, [])
      | Some p \<Rightarrow>
          (case slots p of
             GzipSlots outputFile \<Rightarrow> gzipSlot outputFile u ev
           | ArchiveSlots \<Rightarrow> archiveSlot u ev))"

fun deliver :: "Unarchiver \<Rightarrow> ProcessEvent list \<Rightarrow> Unarchiver \<times> effect list" where
  "deliver u [] = (u, [])"
| "deliver u (ev # evs) =
     (case notify u ev of
        (u', out) \<Rightarrow> (case deliver u' evs of (u'', out') \<Rightarrow> (u'', out @ out')))"

text \<open>One extraction: \<open>start\<close>, then the notifications of the process in order.\<close>

definition extraction ::
  "startEnv \<Rightarrow> Unarchiver \<Rightarrow> ProcessEvent list \<Rightarrow> Unarchiver \<times> effect list" where
  "extraction env u evs =
     (case start env u of
        (u', out) \<Rightarrow> (case deliver u' evs of (u'', out') \<Rightarrow> (u'', out @ out')))"

fun stdoutBytes :: "ProcessEvent list \<Rightarrow> QByteArray" where
  "stdoutBytes [] = []"
| "stdoutBytes (ReadyReadStandardOutput data written # evs) = data @ stdoutBytes evs"
| "stdoutBytes (ev # evs) = stdoutBytes evs"

fun writtenBytes :: "ProcessEvent list \<Rightarrow> QByteArray" where
  "writtenBytes [] = []"
| "writtenBytes (ReadyReadStandardOutput data written # evs) =
     take (nat written) data @ writtenBytes evs"
| "writtenBytes (ev # evs) = writtenBytes evs"

fun writeComplete :: "ProcessEvent \<Rightarrow> bool" where
  "writeComplete (ReadyReadStandardOutput data written) = (written = int (length data))"
| "writeComplete ev = True"

section \<open>Simulated hosts\<close>

text \<open>
  Modelled from the spec: the MIME database is not part of the sources. Every type
  inherits itself, and \<open>application/x-compressed-tar\<close> inherits \<open>application/gzip\<close>.
\<close>

definition specInherits :: "string \<Rightarrow> string \<Rightarrow> bool" where
  "specInherits mimeType candidate =
     (mimeType = candidate \<or>
      (mimeType = ''application/x-compressed-tar'' \<and> candidate = ''application/gzip''))"

text \<open>
  Modelled from the spec: detection by file name, for the archive names of the
  end-to-end scenarios.
\<close>

definition mimeByName :: "FilePath \<Rightarrow> string" where
  "mimeByName fp =
     (if suffix ''.tar.gz'' fp then ''application/x-compressed-tar''
      else if suffix ''.gz'' fp then ''application/gzip''
      else if suffix ''.zip'' fp then ''application/zip''
      else ''application/octet-stream'')"

text \<open>
  A host that is not Windows, with an empty registry, no executable suffix, and a
  search path given as the list of the executables installed (name and absolute path).
\<close>

definition simulatedHost :: "(FilePath \<times> FilePath) list \<Rightarrow> host" where
  "simulatedHost installed =
     \<lparr>isWindowsHost = False,
      registry64 = (\<lambda>k v. []),
      registry32 = (\<lambda>k v. []),
      mimeTypeForFile = mimeByName,
      inherits = specInherits,
      withExecutableSuffix = (\<lambda>p. p),
      searchInPath = (\<lambda>name dirs. case map_of installed name of Some p \<Rightarrow> p | None \<Rightarrow> []),
      toUserOutput = (\<lambda>p. p)\<rparr>"

definition simulatedEnv :: "bool \<Rightarrow> bool \<Rightarrow> startEnv" where
  "simulatedEnv dirOk openOk =
     \<lparr>ensureWritableDir = (\<lambda>p. dirOk),
      openWriteOnly = (\<lambda>p. openOk),
      commandToUserOutput = (\<lambda>c. join '' '' (executable c # arguments c)),
      dirToUserOutput = (\<lambda>p. p)\<rparr>"

definition freshUnarchiver :: "FilePath \<Rightarrow> CommandLine \<Rightarrow> FilePath \<Rightarrow> string \<Rightarrow> Unarchiver" where
  "freshUnarchiver sourceFile cmd destDir gzipName =
     \<lparr>m_sourceAndCommand = Some (sourceFile, cmd), m_destDir = destDir,
      m_gzipFileDestName = gzipName, m_process = None, files = Map.empty\<rparr>"

definition gzipJob :: Unarchiver where
  "gzipJob =
     freshUnarchiver ''/in/data.gz''
       \<lparr>executable = ''/usr/bin/gzip'', arguments = [''-d'', ''%{src}'', ''-c'']\<rparr>
       ''/tmp/out'' ''data''"

definition unzipJob :: "FilePath \<Rightarrow> Unarchiver" where
  "unzipJob destDir =
     freshUnarchiver ''/in/a.zip''
       \<lparr>executable = ''/usr/bin/unzip'', arguments = [''-o'', ''%{src}'', ''-d'', ''%{dest}'']\<rparr>
       destDir []"

section \<open>Properties of the resolver\<close>

lemma resolveTool_eq:
  "resolveTool h tool =
     (if foundExecutable h tool = [] then None
      else Some \<lparr>command = \<lparr>executable = foundExecutable h tool,
                              arguments = arguments (command tool)\<rparr>,
                 supportedMimeTypes = supportedMimeTypes tool,
                 additionalSearchDirs = additionalSearchDirs tool\<rparr>)"
  by (simp add: resolveTool_def Let_def)

lemma firstResolved_find:
  "firstResolved h ts =
     (case find (\<lambda>t. foundExecutable h t \<noteq> []) ts of
        None \<Rightarrow> None | Some t \<Rightarrow> resolveTool h t)"
  by (induction ts) (auto simp: resolveTool_def Let_def split: option.splits)

lemma firstResolved_None:
  "(firstResolved h ts = None) = (\<forall>t\<in>set ts. resolveTool h t = None)"
  by (induction ts) (auto split: option.splits)

lemma find_filter: "find P (filter Q xs) = find (\<lambda>x. Q x \<and> P x) xs"
  by (induction xs) auto

lemma find_append:
  "find P (xs @ ys) = (case find P xs of None \<Rightarrow> find P ys | Some x \<Rightarrow> Some x)"
  by (induction xs) auto

lemma sourceAndCommand_find:
  "sourceAndCommand h sourceFile =
     (case find (\<lambda>tool. supportsMimeType h (mimeTypeForFile h sourceFile) tool
                        \<and> foundExecutable h tool \<noteq> []) (sTools h) of
        Some tool \<Rightarrow>
          Inr (sourceFile, \<lparr>executable = foundExecutable h tool,
                            arguments = arguments (command tool)\<rparr>)
      | None \<Rightarrow>
          Inl (if toolsForFilePath h sourceFile = [] then formatNotSupported
               else noExecutableFound
                      (map (\<lambda>tool. toUserOutput h (executable (command tool)))
                         (toolsForFilePath h sourceFile))))"
proof -
  let ?P = "supportsMimeType h (mimeTypeForFile h sourceFile)"
  let ?ts = "toolsForFilePath h sourceFile"
  have ts: "?ts = filter ?P (sTools h)"
    by (simp add: toolsForFilePath_def toolsForMimeType_def)
  have f: "find (\<lambda>t. foundExecutable h t \<noteq> []) ?ts
           = find (\<lambda>t. ?P t \<and> foundExecutable h t \<noteq> []) (sTools h)"
    by (simp add: ts find_filter)
  show ?thesis
  proof (cases "find (\<lambda>t. ?P t \<and> foundExecutable h t \<noteq> []) (sTools h)")
    case None
    then have "firstResolved h ?ts = None"
      using f by (simp add: firstResolved_find)
    with None show ?thesis
      by (simp add: sourceAndCommand_def Let_def)
  next
    case (Some t)
    then have t: "?P t" "foundExecutable h t \<noteq> []" "t \<in> set (sTools h)"
      by (auto simp: find_Some_iff)
    then have ne: "?ts \<noteq> []"
      by (auto simp: ts filter_empty_conv)
    have "firstResolved h ?ts = resolveTool h t"
      using f Some by (simp add: firstResolved_find)
    with Some t ne show ?thesis
      by (simp add: sourceAndCommand_def Let_def resolveTool_eq)
  qed
qed

lemma sTools_before_gzip:
  "\<exists>pre. sTools h = pre @ [gzipTool]
         \<and> (\<forall>t\<in>set pre. executable (command t) \<noteq> ''gzip''
                           \<and> arguments (command t) \<noteq> arguments (command gzipTool))"
  by (cases "isWindowsHost h") (simp_all add: sTools_def mkTool_def gzipTool_def)

lemma contains_sublist: "contains p s = sublist p s"
  by (induction s) (auto simp: sublist_Cons_right)

lemma sublist_embed: "sublist n s \<Longrightarrow> sublist n (a @ s @ b)"
proof -
  assume "sublist n s"
  then obtain ps ss where "s = ps @ n @ ss" by (auto simp: sublist_def)
  then have "a @ s @ b = (a @ ps) @ n @ (ss @ b)" by simp
  then show ?thesis unfolding sublist_def by blast
qed

lemma sublist_join: "n \<in> set ns \<Longrightarrow> sublist n (join sep ns)"
proof (induction sep ns rule: join.induct)
  case (3 sep x y ys)
  show ?case
  proof (cases "n = x")
    case True
    then show ?thesis by simp
  next
    case False
    with 3 have "sublist n (join sep (y # ys))" by simp
    then have "sublist n ((x @ sep) @ join sep (y # ys) @ [])"
      by (rule sublist_embed)
    then show ?thesis by simp
  qed
qed simp_all

lemma contains_noExecutableFound:
  assumes "n \<in> set ns"
  shows "contains n (noExecutableFound ns)"
proof -
  have "sublist n (join '', '' ns)" using assms by (rule sublist_join)
  then have "sublist n (''Could not find any unarchiving executable in PATH (''
                         @ join '', '' ns @ '').'')"
    by (rule sublist_embed)
  then show ?thesis by (simp only: contains_sublist noExecutableFound_def)
qed

text \<open>
  Claim C1, as the code has it. A source detected as \<open>application/x-compressed-tar\<close>, a
  type that inherits \<open>application/gzip\<close>, passes the filter of the \<open>gzip\<close> entry. When no
  other catalog tool resolves and \<open>gzip\<close> does, \<open>sourceAndCommand\<close> succeeds with the
  \<open>gzip\<close> entry, its executable rewritten to the path found. The entry is the last of
  the catalog: whenever another catalog tool that supports the type resolves, the
  command returned is that of such a tool, with other arguments than those of \<open>gzip\<close>.
\<close>

theorem tar_gz_falls_back_to_gzip:
  assumes "mimeTypeForFile h sourceFile = ''application/x-compressed-tar''"
    and "inherits h ''application/x-compressed-tar'' ''application/gzip''"
  shows "((\<forall>tool\<in>set (sTools h).
             executable (command tool) \<noteq> ''gzip'' \<longrightarrow> resolveTool h tool = None)
          \<and> resolveTool h gzipTool \<noteq> None
          \<longrightarrow> sourceAndCommand h sourceFile =
                Inr (sourceFile,
                     \<lparr>executable = searchInPath h (withExecutableSuffix h ''gzip'') [],
                      arguments = [''-d'', ''%{src}'', ''-c'']\<rparr>))
       \<and> ((\<exists>tool\<in>set (sTools h).
              executable (command tool) \<noteq> ''gzip''
              \<and> supportsMimeType h ''application/x-compressed-tar'' tool
              \<and> resolveTool h tool \<noteq> None)
          \<longrightarrow> (\<exists>tool\<in>set (sTools h).
                 executable (command tool) \<noteq> ''gzip''
                 \<and> arguments (command tool) \<noteq> arguments (command gzipTool)
                 \<and> supportsMimeType h ''application/x-compressed-tar'' tool
                 \<and> resolveTool h tool \<noteq> None
                 \<and> sourceAndCommand h sourceFile =
                     Inr (sourceFile,
                          \<lparr>executable = foundExecutable h tool,
                           arguments = arguments (command tool)\<rparr>)))"
proof (intro conjI impI)
  let ?P = "\<lambda>tool. supportsMimeType h (mimeTypeForFile h sourceFile) tool
                    \<and> foundExecutable h tool \<noteq> []"
  obtain pre where pre: "sTools h = pre @ [gzipTool]"
    and nogz: "\<forall>t\<in>set pre. executable (command t) \<noteq> ''gzip''
                             \<and> arguments (command t) \<noteq> arguments (command gzipTool)"
    using sTools_before_gzip by blast
  {
    assume a: "(\<forall>tool\<in>set (sTools h).
                 executable (command tool) \<noteq> ''gzip'' \<longrightarrow> resolveTool h tool = None)
               \<and> resolveTool h gzipTool \<noteq> None"
    then have "\<forall>t\<in>set pre. resolveTool h t = None"
      using nogz by (simp add: pre)
    then have "\<forall>t\<in>set pre. \<not> ?P t"
      by (simp add: resolveTool_eq split: if_splits)
    then have "find ?P pre = None" by (simp add: find_None_iff)
    moreover have "?P gzipTool"
      using assms a
      by (simp add: resolveTool_eq supportsMimeType_def gzipTool_def mkTool_def split: if_splits)
    ultimately have "find ?P (sTools h) = Some gzipTool"
      by (simp add: pre find_append)
    then show "sourceAndCommand h sourceFile =
                Inr (sourceFile,
                     \<lparr>executable = searchInPath h (withExecutableSuffix h ''gzip'') [],
                      arguments = [''-d'', ''%{src}'', ''-c'']\<rparr>)"
      by (simp add: sourceAndCommand_find foundExecutable_def gzipTool_def mkTool_def)
  }
  {
    assume "\<exists>tool\<in>set (sTools h).
              executable (command tool) \<noteq> ''gzip''
              \<and> supportsMimeType h ''application/x-compressed-tar'' tool
              \<and> resolveTool h tool \<noteq> None"
    then obtain t where t: "t \<in> set (sTools h)" "executable (command t) \<noteq> ''gzip''"
      "supportsMimeType h ''application/x-compressed-tar'' t" "resolveTool h t \<noteq> None"
      by blast
    from t(1,2) have "t \<in> set pre" by (auto simp: pre gzipTool_def mkTool_def)
    moreover from t(3,4) have "?P t"
      by (simp add: assms(1) resolveTool_eq split: if_splits)
    ultimately have "find ?P pre \<noteq> None" by (auto simp: find_None_iff)
    then obtain t' where f: "find ?P pre = Some t'" by blast
    then have t': "t' \<in> set pre" "?P t'" by (auto simp: find_Some_iff)
    from f have "find ?P (sTools h) = Some t'" by (simp add: pre find_append)
    then have "sourceAndCommand h sourceFile =
                 Inr (sourceFile, \<lparr>executable = foundExecutable h t',
                                   arguments = arguments (command t')\<rparr>)"
      by (simp add: sourceAndCommand_find)
    moreover from t'(2) have "supportsMimeType h ''application/x-compressed-tar'' t'"
      "resolveTool h t' \<noteq> None"
      by (simp_all add: assms(1) resolveTool_eq)
    moreover from t'(1) have "t' \<in> set (sTools h)" by (simp add: pre)
    ultimately show "\<exists>tool\<in>set (sTools h).
                 executable (command tool) \<noteq> ''gzip''
                 \<and> arguments (command tool) \<noteq> arguments (command gzipTool)
                 \<and> supportsMimeType h ''application/x-compressed-tar'' tool
                 \<and> resolveTool h tool \<noteq> None
                 \<and> sourceAndCommand h sourceFile =
                     Inr (sourceFile,
                          \<lparr>executable = foundExecutable h tool,
                           arguments = arguments (command tool)\<rparr>)"
      using nogz t'(1) by blast
  }
qed

theorem tar_gz_falls_back_to_gzip_witness:
  "sourceAndCommand (simulatedHost [(''gzip'', ''/usr/bin/gzip'')]) ''archive.tar.gz'' =
     Inr (''archive.tar.gz'',
          \<lparr>executable = ''/usr/bin/gzip'', arguments = [''-d'', ''%{src}'', ''-c'']\<rparr>)
   \<and> sourceAndCommand (simulatedHost [(''gzip'', ''/usr/bin/gzip''), (''tar'', ''/bin/tar'')])
       ''archive.tar.gz'' =
     Inr (''archive.tar.gz'',
          \<lparr>executable = ''/bin/tar'', arguments = [''xvzf'', ''%{src}'']\<rparr>)"
  using tar_gz_falls_back_to_gzip
          [of "simulatedHost [(''gzip'', ''/usr/bin/gzip'')]" "''archive.tar.gz''"]
        tar_gz_falls_back_to_gzip
          [of "simulatedHost [(''gzip'', ''/usr/bin/gzip''), (''tar'', ''/bin/tar'')]"
              "''archive.tar.gz''"]
  by (simp add: simulatedHost_def sTools_def mkTool_def gzipTool_def
      specInherits_def mimeByName_def suffix_to_prefix resolveTool_def foundExecutable_def
      additionalInstallDirs_def additionalCMakeDirs_def supportsMimeType_def)

text \<open>
  Claim C1 as stated fails: on the host of scenario B (\<open>archive.tar.gz\<close>, only \<open>gzip\<close>
  installed, no \<open>tar\<close> or \<open>cmake\<close> tool resolving) the result is not the error
  \<open>File format not supported.\<close>
\<close>

theorem tar_gz_unsupported_counterexample:
  "mimeTypeForFile (simulatedHost [(''gzip'', ''/usr/bin/gzip'')]) ''archive.tar.gz''
     = ''application/x-compressed-tar''
   \<and> list_all (\<lambda>tool. resolveTool (simulatedHost [(''gzip'', ''/usr/bin/gzip'')]) tool = None)
       (filter (\<lambda>tool. executable (command tool) \<noteq> ''gzip'')
          (sTools (simulatedHost [(''gzip'', ''/usr/bin/gzip'')])))
   \<and> resolveTool (simulatedHost [(''gzip'', ''/usr/bin/gzip'')]) gzipTool \<noteq> None
   \<and> sourceAndCommand (simulatedHost [(''gzip'', ''/usr/bin/gzip'')]) ''archive.tar.gz''
       \<noteq> Inl formatNotSupported"
  by (simp add: simulatedHost_def sTools_def mkTool_def gzipTool_def
      specInherits_def mimeByName_def suffix_to_prefix resolveTool_def foundExecutable_def
      additionalInstallDirs_def additionalCMakeDirs_def sourceAndCommand_def
      toolsForFilePath_def toolsForMimeType_def supportsMimeType_def)

text \<open>
  Claim C4. When some catalog tool supports the detected type and none of the
  supporting tools resolves, \<open>sourceAndCommand\<close> fails with the message
  \<open>Could not find any unarchiving executable in PATH (...)\<close>, which lists, separated by
  commas and in catalog order, the display name of the executable of every candidate;
  each of these names occurs in the message.
\<close>

theorem no_executable_found_lists_candidates:
  assumes "\<exists>tool\<in>set (sTools h). supportsMimeType h (mimeTypeForFile h sourceFile) tool"
    and "\<forall>tool\<in>set (sTools h).
           supportsMimeType h (mimeTypeForFile h sourceFile) tool \<longrightarrow> resolveTool h tool = None"
    and "names = map (\<lambda>tool. toUserOutput h (executable (command tool)))
                   (filter (supportsMimeType h (mimeTypeForFile h sourceFile)) (sTools h))"
  shows "sourceAndCommand h sourceFile =
           Inl (''Could not find any unarchiving executable in PATH (''
                  @ join '', '' names @ '').'')
         \<and> (\<forall>n\<in>set names. contains n (''Could not find any unarchiving executable in PATH (''
                  @ join '', '' names @ '').''))"
proof -
  let ?ts = "toolsForFilePath h sourceFile"
  have ts: "?ts = filter (supportsMimeType h (mimeTypeForFile h sourceFile)) (sTools h)"
    by (simp add: toolsForFilePath_def toolsForMimeType_def)
  have ne: "?ts \<noteq> []" using assms(1) by (auto simp: ts filter_empty_conv)
  have "\<forall>t\<in>set ?ts. resolveTool h t = None" using assms(2) by (simp add: ts)
  then have "firstResolved h ?ts = None" by (simp add: firstResolved_None)
  with ne have "sourceAndCommand h sourceFile = Inl (noExecutableFound names)"
    by (simp add: sourceAndCommand_def Let_def assms(3) ts)
  moreover have "\<forall>n\<in>set names. contains n (noExecutableFound names)"
    by (simp add: contains_noExecutableFound)
  ultimately show ?thesis by (simp add: noExecutableFound_def)
qed

theorem no_executable_found_lists_candidates_witness:
  "sourceAndCommand (simulatedHost []) ''archive.zip'' =
     Inl ''Could not find any unarchiving executable in PATH (unzip, 7z, cmake, tar).''"
  using no_executable_found_lists_candidates
          [of "simulatedHost []" "''archive.zip''" "[''unzip'', ''7z'', ''cmake'', ''tar'']"]
  by (simp add: simulatedHost_def sTools_def mkTool_def gzipTool_def supportsMimeType_def
      specInherits_def mimeByName_def suffix_to_prefix resolveTool_def foundExecutable_def
      additionalInstallDirs_def additionalCMakeDirs_def)

text \<open>
  Claim C5. \<open>sourceAndCommand\<close> is a function of the source file and the host. It returns
  the command of the first entry of the catalog, in catalog order, that supports the
  detected type (some declared type is inherited by it) and whose executable is found,
  with the executable rewritten to the path found; when there is no such entry it
  fails.
\<close>

theorem first_resolvable_candidate_wins:
  "sourceAndCommand h sourceFile =
     (case find (\<lambda>tool. supportsMimeType h (mimeTypeForFile h sourceFile) tool
                        \<and> foundExecutable h tool \<noteq> []) (sTools h) of
        Some tool \<Rightarrow>
          Inr (sourceFile, \<lparr>executable = foundExecutable h tool,
                            arguments = arguments (command tool)\<rparr>)
      | None \<Rightarrow>
          Inl (if toolsForFilePath h sourceFile = [] then formatNotSupported
               else noExecutableFound
                      (map (\<lambda>tool. toUserOutput h (executable (command tool)))
                         (toolsForFilePath h sourceFile))))"
  by (rule sourceAndCommand_find)

theorem first_resolvable_candidate_wins_witness:
  "sourceAndCommand (simulatedHost [(''tar'', ''/bin/tar''), (''7z'', ''/opt/7z'')]) ''a.zip''
     = Inr (''a.zip'', \<lparr>executable = ''/opt/7z'',
                         arguments = [''x'', ''-o%{dest}'', ''-y'', ''-bb'', ''%{src}'']\<rparr>)"
  using first_resolvable_candidate_wins
          [of "simulatedHost [(''tar'', ''/bin/tar''), (''7z'', ''/opt/7z'')]" "''a.zip''"]
  by (simp add: simulatedHost_def sTools_def mkTool_def gzipTool_def
      specInherits_def mimeByName_def suffix_to_prefix foundExecutable_def
      additionalInstallDirs_def additionalCMakeDirs_def supportsMimeType_def)

text \<open>
  Claim C9. \<open>resolveTool\<close> returns nothing exactly when the search for the executable
  comes back empty; otherwise it returns a copy of the tool whose executable is the
  path found and whose argument list, supported types and search directories are those
  of the catalog entry. It is a function of its argument: the entry is not changed.
\<close>

theorem resolveTool_rewrites_only_executable:
  "resolveTool h tool =
     (if searchInPath h (withExecutableSuffix h (executable (command tool)))
           (additionalSearchDirs tool) = []
      then None
      else Some \<lparr>command =
                   \<lparr>executable =
                      searchInPath h (withExecutableSuffix h (executable (command tool)))
                        (additionalSearchDirs tool),
                    arguments = arguments (command tool)\<rparr>,
                 supportedMimeTypes = supportedMimeTypes tool,
                 additionalSearchDirs = additionalSearchDirs tool\<rparr>)"
  by (simp add: resolveTool_def foundExecutable_def Let_def)

theorem resolveTool_rewrites_only_executable_witness:
  "resolveTool (simulatedHost [(''gzip'', ''/usr/bin/gzip'')]) gzipTool =
     Some \<lparr>command = \<lparr>executable = ''/usr/bin/gzip'',
                       arguments = [''-d'', ''%{src}'', ''-c'']\<rparr>,
           supportedMimeTypes = [''application/gzip''], additionalSearchDirs = []\<rparr>
   \<and> resolveTool (simulatedHost []) gzipTool = None"
  using resolveTool_rewrites_only_executable [of "simulatedHost [(''gzip'', ''/usr/bin/gzip'')]" gzipTool]
        resolveTool_rewrites_only_executable [of "simulatedHost []" gzipTool]
  by (simp add: simulatedHost_def gzipTool_def mkTool_def)

section \<open>Properties of the command builder\<close>

lemma replaceAll_skip:
  assumes "CHR ''%'' \<notin> set a" "before = CHR ''%'' # b"
  shows "replaceAll before x (a @ u) = a @ replaceAll before x u"
  using assms by (induction a) auto

lemma prefix_replaceAll:
  assumes "a \<noteq> []" "hd a \<notin> set Q" "prefix Q (replaceAll P a u)"
  shows "prefix Q u"
  using assms
proof (induction P a u arbitrary: Q rule: replaceAll.induct)
  case (1 before after)
  then show ?case by simp
next
  case (2 before after c cs)
  show ?case
  proof (cases Q)
    case Nil
    then show ?thesis by simp
  next
    case (Cons q Q')
    show ?thesis
    proof (cases "before \<noteq> [] \<and> prefix before (c # cs)")
      case True
      with "2.prems" Cons have False
        by (cases after) auto
      then show ?thesis ..
    next
      case False
      with "2.prems" Cons have "q = c" "prefix Q' (replaceAll before after cs)"
        by auto
      moreover from "2.prems" Cons have "hd after \<notin> set Q'" by simp
      ultimately have "prefix Q' cs"
        using "2.IH"(2) [OF False "2.prems"(1)] by blast
      with \<open>q = c\<close> Cons show ?thesis by simp
    qed
  qed
qed

lemma prefix_specSubstitute:
  assumes "s \<noteq> []" "d \<noteq> []" "hd s \<notin> set Q" "hd d \<notin> set Q"
    and "prefix Q (specSubstitute s d u)"
  shows "prefix Q u"
  using assms
proof (induction s d u arbitrary: Q rule: specSubstitute.induct)
  case (1 src dest)
  then show ?case by simp
next
  case (2 src dest c cs)
  show ?case
  proof (cases Q)
    case Nil
    then show ?thesis by simp
  next
    case (Cons q Q')
    consider (a) "prefix ''%{src}'' (c # cs)"
      | (b) "\<not> prefix ''%{src}'' (c # cs)" "prefix ''%{dest}'' (c # cs)"
      | (c) "\<not> prefix ''%{src}'' (c # cs)" "\<not> prefix ''%{dest}'' (c # cs)"
      by blast
    then show ?thesis
    proof cases
      case a
      with "2.prems" Cons have False by (cases src) auto
      then show ?thesis ..
    next
      case b
      with "2.prems" Cons have False by (cases dest) auto
      then show ?thesis ..
    next
      case c
      with "2.prems" Cons have "q = c" "prefix Q' (specSubstitute src dest cs)"
        by auto
      moreover from "2.prems" Cons have "hd src \<notin> set Q'" "hd dest \<notin> set Q'" by simp_all
      ultimately have "prefix Q' cs"
        using "2.IH"(3) [OF c "2.prems"(1,2)] by blast
      with \<open>q = c\<close> Cons show ?thesis by simp
    qed
  qed
qed

lemma replaceAll_src_over_dest:
  "replaceAll ''%{src}'' s (''%{dest}'' @ rest) = ''%{dest}'' @ replaceAll ''%{src}'' s rest"
  by simp

lemma replaceAll_hit:
  "before \<noteq> [] \<Longrightarrow> replaceAll before a (before @ rest) = a @ replaceAll before a rest"
  by (cases before) simp_all

lemma specSubstitute_src:
  "specSubstitute s d (''%{src}'' @ rest) = s @ specSubstitute s d rest"
  by simp

lemma specSubstitute_dest:
  "specSubstitute s d (''%{dest}'' @ rest) = d @ specSubstitute s d rest"
  by simp

lemma replaceAll_miss:
  "\<not> prefix before (c # cs) \<Longrightarrow> replaceAll before a (c # cs) = c # replaceAll before a cs"
  by simp

lemma specSubstitute_miss:
  "\<not> prefix ''%{src}'' (c # cs) \<Longrightarrow> \<not> prefix ''%{dest}'' (c # cs)
     \<Longrightarrow> specSubstitute s d (c # cs) = c # specSubstitute s d cs"
  by auto

lemma token_cases:
  obtains (nil) "tok = []"
  | (src) rest where "tok = ''%{src}'' @ rest"
  | (dest) rest where "tok = ''%{dest}'' @ rest"
  | (other) c cs where "tok = c # cs" "\<not> prefix ''%{src}'' tok" "\<not> prefix ''%{dest}'' tok"
proof (cases tok)
  case Nil
  then show ?thesis by (rule nil)
next
  case (Cons c cs)
  show ?thesis
  proof (cases "prefix ''%{src}'' tok")
    case True
    then obtain rest where "tok = ''%{src}'' @ rest" by (auto simp: prefix_def)
    then show ?thesis by (rule src)
  next
    case False
    show ?thesis
    proof (cases "prefix ''%{dest}'' tok")
      case True
      then obtain rest where "tok = ''%{dest}'' @ rest" by (auto simp: prefix_def)
      then show ?thesis by (rule dest)
    next
      case nd: False
      from Cons False nd show ?thesis by (rule other)
    qed
  qed
qed

lemma renderArg_specSubstitute:
  assumes "s \<noteq> []" "CHR ''%'' \<notin> set s" "hd s \<notin> set ''{dest}''"
  shows "renderArg s d tok = specSubstitute s d tok"
proof (induction tok rule: length_induct)
  case (1 tok)
  show ?case
  proof (cases tok rule: token_cases)
    case nil
    then show ?thesis by (simp add: renderArg_def)
  next
    case (src rest)
    then have "renderArg s d rest = specSubstitute s d rest" using 1 by simp
    then have "replaceAll ''%{dest}'' d (s @ replaceAll ''%{src}'' s rest)
                 = s @ specSubstitute s d rest"
      using assms(2) by (simp add: replaceAll_skip renderArg_def)
    moreover have "replaceAll ''%{src}'' s tok = s @ replaceAll ''%{src}'' s rest"
      unfolding src by (rule replaceAll_hit) simp
    ultimately show ?thesis
      unfolding renderArg_def src specSubstitute_src by simp
  next
    case (dest rest)
    then have "renderArg s d rest = specSubstitute s d rest" using 1 by simp
    moreover have "replaceAll ''%{src}'' s tok = ''%{dest}'' @ replaceAll ''%{src}'' s rest"
      unfolding dest by (rule replaceAll_src_over_dest)
    moreover have "replaceAll ''%{dest}'' d (''%{dest}'' @ replaceAll ''%{src}'' s rest)
                     = d @ replaceAll ''%{dest}'' d (replaceAll ''%{src}'' s rest)"
      by (rule replaceAll_hit) simp
    ultimately show ?thesis
      unfolding renderArg_def dest specSubstitute_dest by simp
  next
    case (other c cs)
    then have ih: "renderArg s d cs = specSubstitute s d cs" using 1 by simp
    let ?u = "replaceAll ''%{src}'' s cs"
    have r1: "replaceAll ''%{src}'' s tok = c # ?u"
      using other(2) unfolding other(1) by (rule replaceAll_miss)
    have r2: "specSubstitute s d tok = c # specSubstitute s d cs"
      using other(2,3) unfolding other(1) by (rule specSubstitute_miss)
    have "\<not> prefix ''%{dest}'' (c # ?u)"
    proof
      assume p: "prefix ''%{dest}'' (c # ?u)"
      then have "CHR ''%'' = c \<and> prefix ''{dest}'' ?u"
        by (rule Cons_prefix_Cons [THEN iffD1])
      then have c: "CHR ''%'' = c" and "prefix ''{dest}'' ?u" by blast+
      with assms(1,3) have "prefix ''{dest}'' cs" using prefix_replaceAll by blast
      with c have "prefix ''%{dest}'' (c # cs)"
        using Cons_prefix_Cons [of "CHR ''%''" "''{dest}''" c cs] by blast
      with other show False by blast
    qed
    then have "replaceAll ''%{dest}'' d (c # ?u) = c # replaceAll ''%{dest}'' d ?u"
      by (rule replaceAll_miss)
    with r1 r2 ih show ?thesis by (simp only: renderArg_def)
  qed
qed

lemma contains_skip:
  "CHR ''%'' \<notin> set a \<Longrightarrow> contains (CHR ''%'' # P) (a @ r) = contains (CHR ''%'' # P) r"
  by (induction a) auto

lemma specSubstitute_no_placeholder:
  assumes "plainPath s" "plainPath d" "P = ''%{src}'' \<or> P = ''%{dest}''"
  shows "\<not> contains P (specSubstitute s d tok)"
proof (induction tok rule: length_induct)
  case (1 tok)
  from assms(3) obtain P' where P: "P = CHR ''%'' # P'" and P': "set P' \<subseteq> set ''{src}dest''"
    by auto
  from assms(1,2) P' have hd: "s \<noteq> []" "d \<noteq> []" "hd s \<notin> set P'" "hd d \<notin> set P'"
    and pc: "CHR ''%'' \<notin> set s" "CHR ''%'' \<notin> set d"
    by (auto simp: plainPath_def)
  show ?case
  proof (cases tok rule: token_cases)
    case nil
    then show ?thesis using P by simp
  next
    case (src rest)
    then have "\<not> contains P (specSubstitute s d rest)" using 1 by simp
    then show ?thesis
      unfolding src specSubstitute_src P
      using contains_skip [OF pc(1), of P' "specSubstitute s d rest"] by blast
  next
    case (dest rest)
    then have "\<not> contains P (specSubstitute s d rest)" using 1 by simp
    then show ?thesis
      unfolding dest specSubstitute_dest P
      using contains_skip [OF pc(2), of P' "specSubstitute s d rest"] by blast
  next
    case (other c cs)
    then have ih: "\<not> contains P (specSubstitute s d cs)" using 1 by simp
    have eq: "specSubstitute s d tok = c # specSubstitute s d cs"
      using other(2,3) unfolding other(1) by (rule specSubstitute_miss)
    have "\<not> prefix P (c # specSubstitute s d cs)"
    proof
      assume p: "prefix P (c # specSubstitute s d cs)"
      then have "CHR ''%'' = c \<and> prefix P' (specSubstitute s d cs)"
        unfolding P by (rule Cons_prefix_Cons [THEN iffD1])
      then have c: "CHR ''%'' = c" and "prefix P' (specSubstitute s d cs)" by blast+
      with hd have "prefix P' cs" using prefix_specSubstitute by blast
      with c have "prefix P tok"
        unfolding P other(1) using Cons_prefix_Cons [of "CHR ''%''" P' c cs] by blast
      with other assms(3) show False by blast
    qed
    with ih eq show ?thesis by simp
  qed
qed


text \<open>
  On paths that cannot be mistaken for a piece of a placeholder, the two replacements
  in a row do what the substitution of the specification does, and nothing of a
  placeholder is left.
\<close>

lemma unarchiveCommand_plain_paths:
  assumes "plainPath sourceFile" "plainPath destDir"
  shows "executable (unarchiveCommand commandTemplate sourceFile destDir)
           = executable commandTemplate
       \<and> arguments (unarchiveCommand commandTemplate sourceFile destDir)
           = map (specSubstitute sourceFile destDir) (arguments commandTemplate)
       \<and> (\<forall>arg\<in>set (arguments (unarchiveCommand commandTemplate sourceFile destDir)).
            \<not> contains ''%{src}'' arg \<and> \<not> contains ''%{dest}'' arg)"
proof -
  from assms(1) have "sourceFile \<noteq> []" "CHR ''%'' \<notin> set sourceFile"
    "hd sourceFile \<notin> set ''{dest}''"
    by (auto simp: plainPath_def)
  then have eq: "\<And>tok. renderArg sourceFile destDir tok = specSubstitute sourceFile destDir tok"
    by (rule renderArg_specSubstitute)
  have "\<And>tok. \<not> contains ''%{src}'' (specSubstitute sourceFile destDir tok)"
       "\<And>tok. \<not> contains ''%{dest}'' (specSubstitute sourceFile destDir tok)"
    using specSubstitute_no_placeholder [OF assms] by blast+
  with eq show ?thesis by (simp add: unarchiveCommand_def)
qed

text \<open>
  Claim C6 does not hold of the code: the second replacement also scans the source
  path that the first one has put in. For a source file whose name contains
  \<open>%{dest}\<close>, the \<open>unzip\<close> command is rendered with that part of the file name replaced
  by the destination directory, where the substitution of the specification puts the
  source path as it is.
\<close>

theorem second_replace_rewrites_source_path:
  "unarchiveCommand
     \<lparr>executable = ''/usr/bin/unzip'', arguments = [''-o'', ''%{src}'', ''-d'', ''%{dest}'']\<rparr>
     ''/in/%{dest}.zip'' ''/tmp/out''
   = \<lparr>executable = ''/usr/bin/unzip'',
      arguments = [''-o'', ''/in//tmp/out.zip'', ''-d'', ''/tmp/out'']\<rparr>
   \<and> map (specSubstitute ''/in/%{dest}.zip'' ''/tmp/out'')
       [''-o'', ''%{src}'', ''-d'', ''%{dest}'']
     = [''-o'', ''/in/%{dest}.zip'', ''-d'', ''/tmp/out'']"
  by (simp add: unarchiveCommand_def renderArg_def)

section \<open>Properties of the executor\<close>

lemma deliver_append:
  "deliver u (xs @ ys) =
     (case deliver u xs of
        (u', out) \<Rightarrow> (case deliver u' ys of (u'', out') \<Rightarrow> (u'', out @ out')))"
  by (induction xs arbitrary: u) (auto split: prod.splits)

lemma notify_gzip_read:
  assumes "m_process u = Some p" "slots p = GzipSlots f" "files u f = Some c"
    and "\<not> isProcessDone ev"
  shows "m_process (fst (notify u ev)) = Some p
         \<and> files (fst (notify u ev)) f = Some (c @ writtenBytes [ev])"
  using assms by (cases ev) (simp_all add: notify_def fileWrite_def)

lemma deliver_gzip_reads:
  assumes "m_process u = Some p" "slots p = GzipSlots f" "files u f = Some c"
    and "\<forall>ev\<in>set evs. \<not> isProcessDone ev"
  shows "m_process (fst (deliver u evs)) = Some p
         \<and> files (fst (deliver u evs)) f = Some (c @ writtenBytes evs)"
  using assms
proof (induction evs arbitrary: u c)
  case Nil
  then show ?case by simp
next
  case (Cons ev evs)
  obtain u' out where n: "notify u ev = (u', out)" by (cases "notify u ev")
  from Cons.prems have "\<not> isProcessDone ev" by simp
  with Cons.prems(1-3) notify_gzip_read [of u p f c ev] n
  have u': "m_process u' = Some p" "files u' f = Some (c @ writtenBytes [ev])"
    by simp_all
  from Cons.prems have "\<forall>e\<in>set evs. \<not> isProcessDone e" by simp
  with Cons.IH [OF u'(1) Cons.prems(2) u'(2)]
  have "m_process (fst (deliver u' evs)) = Some p"
    "files (fst (deliver u' evs)) f = Some ((c @ writtenBytes [ev]) @ writtenBytes evs)"
    by simp_all
  moreover have "writtenBytes [ev] @ writtenBytes evs = writtenBytes (ev # evs)"
    by (cases ev) simp_all
  ultimately show ?case using n by (auto split: prod.splits)
qed

lemma deliver_gzip_done:
  assumes "m_process u = Some p" "slots p = GzipSlots f" "files u f = Some c"
    and "\<forall>ev\<in>set evs. \<not> isProcessDone ev"
  shows "files (fst (deliver u (evs @ [ProcessDone success]))) f
           = (if success then Some (c @ writtenBytes evs) else None)"
    and "\<exists>out. snd (deliver u (evs @ [ProcessDone success])) = out @ [Done (toDoneResult success)]"
proof -
  obtain u' out where d: "deliver u evs = (u', out)" by (cases "deliver u evs")
  from deliver_gzip_reads [OF assms] d
  have u': "m_process u' = Some p" "files u' f = Some (c @ writtenBytes evs)" by simp_all
  show "files (fst (deliver u (evs @ [ProcessDone success]))) f
           = (if success then Some (c @ writtenBytes evs) else None)"
    using d u' assms(2) by (simp add: deliver_append notify_def)
  show "\<exists>out. snd (deliver u (evs @ [ProcessDone success])) = out @ [Done (toDoneResult success)]"
    using d u' assms(2) by (simp add: deliver_append notify_def)
qed

lemma writtenBytes_complete:
  "\<forall>ev\<in>set evs. writeComplete ev \<Longrightarrow> writtenBytes evs = stdoutBytes evs"
proof (induction evs)
  case (Cons ev evs)
  then show ?case by (cases ev) simp_all
qed simp

lemma short_write_reported:
  assumes "m_process u = Some p" "slots p = GzipSlots f"
    and "\<forall>ev\<in>set evs. \<not> isProcessDone ev" and "\<exists>ev\<in>set evs. \<not> writeComplete ev"
  shows "OutputReceived ''Failed to write output file.'' \<in> set (snd (deliver u evs))
         \<and> Done Error \<in> set (snd (deliver u evs))"
  using assms
proof (induction evs arbitrary: u)
  case Nil
  then show ?case by simp
next
  case (Cons ev evs)
  obtain u' out where n: "notify u ev = (u', out)" by (cases "notify u ev")
  have u': "m_process u' = Some p"
    using n Cons.prems(1,2,3) by (cases ev) (auto simp: notify_def)
  show ?case
  proof (cases "writeComplete ev")
    case False
    then have "OutputReceived ''Failed to write output file.'' \<in> set out \<and> Done Error \<in> set out"
      using n Cons.prems(1,2) by (cases ev) (auto simp: notify_def)
    then show ?thesis using n by (auto split: prod.splits)
  next
    case True
    with Cons.prems have "\<exists>e\<in>set evs. \<not> writeComplete e" "\<forall>e\<in>set evs. \<not> isProcessDone e"
      by auto
    with Cons.IH [OF u' Cons.prems(2)]
    have "OutputReceived ''Failed to write output file.'' \<in> set (snd (deliver u' evs))
         \<and> Done Error \<in> set (snd (deliver u' evs))" by simp
    then show ?thesis using n by (auto split: prod.splits)
  qed
qed

lemma start_gzip_opened:
  assumes "m_process u = None" "m_sourceAndCommand u = Some (sourceFile, commandTemplate)"
    and "m_destDir u \<noteq> []" "fileName (executable commandTemplate) = ''gzip''"
    and "openWriteOnly env (pathAppended (m_destDir u) (m_gzipFileDestName u))"
  shows "\<exists>p. m_process (fst (start env u)) = Some p
             \<and> slots p = GzipSlots (pathAppended (m_destDir u) (m_gzipFileDestName u))
             \<and> started p"
    and "files (fst (start env u)) (pathAppended (m_destDir u) (m_gzipFileDestName u)) = Some []"
  using assms by (simp_all add: start_def unarchiveCommand_def Let_def)

lemma deliver_append_fst:
  "fst (deliver u (xs @ ys)) = fst (deliver (fst (deliver u xs)) ys)"
  by (simp add: deliver_append split: prod.splits)

lemma deliver_append_snd:
  "snd (deliver u (xs @ ys)) = snd (deliver u xs) @ snd (deliver (fst (deliver u xs)) ys)"
  by (simp add: deliver_append split: prod.splits)

lemma extraction_fst: "fst (extraction env u evs) = fst (deliver (fst (start env u)) evs)"
  by (simp add: extraction_def split: prod.splits)

text \<open>
  Claim C8. \<open>start\<close> on an object that already owns a process fails its assertion:
  the failure is logged, \<open>done(Error)\<close> is emitted, and the object, its process and the
  files are left as they were; no second process is created.
\<close>

theorem start_rejected_while_process_owned:
  "m_process u \<noteq> None \<Longrightarrow> start env u = (u, [AssertFailure ''!m_process'', Done Error])"
  by (simp add: start_def)

theorem start_rejected_while_process_owned_witness:
  "start (simulatedEnv True True) (fst (start (simulatedEnv True True) (unzipJob ''/tmp/out'')))
   = (fst (start (simulatedEnv True True) (unzipJob ''/tmp/out'')),
      [AssertFailure ''!m_process'', Done Error])"
  using start_rejected_while_process_owned
          [of "fst (start (simulatedEnv True True) (unzipJob ''/tmp/out''))"
              "simulatedEnv True True"]
  by (simp add: start_def unzipJob_def freshUnarchiver_def simulatedEnv_def fileName_def
      Let_def unarchiveCommand_def)

text \<open>
  Claim C3, as the code has it. \<open>start\<close> calls \<open>ensureWritableDir\<close> and does not look at
  its answer. When the directory could not be made writable, a terminal \<open>Error\<close> is
  emitted before any process exists only in the \<open>gzip\<close> branch, and there only when
  opening the output file fails; in every other case the process is created and
  started, and \<open>start\<close> emits the \<open>Running\<close> line and no terminal event.
\<close>

theorem start_ignores_ensureWritableDir:
  assumes "m_process u = None" "m_sourceAndCommand u = Some (sourceFile, commandTemplate)"
    and "m_destDir u \<noteq> []" "\<not> ensureWritableDir env (m_destDir u)"
  shows "(fileName (executable commandTemplate) = ''gzip''
            \<and> \<not> openWriteOnly env (pathAppended (m_destDir u) (m_gzipFileDestName u))
          \<longrightarrow> start env u = (u, [OutputReceived ''Failed to open output file.'', Done Error]))
       \<and> (\<not> (fileName (executable commandTemplate) = ''gzip''
               \<and> \<not> openWriteOnly env (pathAppended (m_destDir u) (m_gzipFileDestName u)))
          \<longrightarrow> (\<exists>p. m_process (fst (start env u)) = Some p \<and> started p)
              \<and> snd (start env u) =
                  [OutputReceived
                     (runningMessage env
                        (unarchiveCommand commandTemplate sourceFile (m_destDir u))
                        (m_destDir u))])"
  using assms by (simp add: start_def unarchiveCommand_def Let_def)

theorem start_ignores_ensureWritableDir_witness:
  "start (simulatedEnv False False)
     (freshUnarchiver ''/in/data.gz'' \<lparr>executable = ''/usr/bin/gzip'', arguments = []\<rparr>
        ''/ro/out'' ''data'')
   = (freshUnarchiver ''/in/data.gz'' \<lparr>executable = ''/usr/bin/gzip'', arguments = []\<rparr>
        ''/ro/out'' ''data'',
      [OutputReceived ''Failed to open output file.'', Done Error])"
  using start_ignores_ensureWritableDir [of "freshUnarchiver ''/in/data.gz'' \<lparr>executable = ''/usr/bin/gzip'', arguments = []\<rparr>
        ''/ro/out'' ''data''" "''/in/data.gz''" "\<lparr>executable = ''/usr/bin/gzip'', arguments = []\<rparr>"
        "simulatedEnv False False"]
  by (simp add: freshUnarchiver_def simulatedEnv_def fileName_def)

text \<open>
  Claim C3 as stated fails: in the archive branch, with a destination that could not
  be made writable, \<open>start\<close> creates and starts the process and emits no terminal
  event.
\<close>

theorem destination_not_writable_counterexample:
  "\<not> ensureWritableDir (simulatedEnv False False) ''/ro/out''
   \<and> map_option started
        (m_process (fst (start (simulatedEnv False False)
           (unzipJob ''/ro/out''))))
       = Some True
   \<and> filter isDone
        (snd (start (simulatedEnv False False)
           (unzipJob ''/ro/out''))) = []"
  by (simp add: start_def unzipJob_def freshUnarchiver_def simulatedEnv_def fileName_def Let_def
      unarchiveCommand_def)

text \<open>
  Claim C2 does not hold of the code: in the \<open>gzip\<close> branch the slot for standard output
  emits \<open>done(Error)\<close> after a short write and leaves the process connected, so the
  slot for the end of the process emits \<open>done\<close> once more. Here the process writes six
  bytes, the file takes three, and the process then finishes with success.
\<close>

theorem short_write_emits_done_twice:
  "extraction (simulatedEnv True True)
     gzipJob
     [ReadyReadStandardOutput ''abcdef'' 3, ProcessDone True]
   = (\<lparr>m_sourceAndCommand =
          Some (''/in/data.gz'',
                \<lparr>executable = ''/usr/bin/gzip'', arguments = [''-d'', ''%{src}'', ''-c'']\<rparr>),
        m_destDir = ''/tmp/out'', m_gzipFileDestName = ''data'',
        m_process =
          Some \<lparr>processCommand =
                  \<lparr>executable = ''/usr/bin/gzip'', arguments = [''-d'', ''/in/data.gz'', ''-c'']\<rparr>,
                workingDirectory = ''/tmp/out'', mergedChannels = False,
                slots = GzipSlots ''/tmp/out/data'', started = True\<rparr>,
        files = [''/tmp/out/data'' \<mapsto> ''abc'']\<rparr>,
      [OutputReceived
         (''Running /usr/bin/gzip -d /in/data.gz -c'' @ [CHR 0x0A] @ ''in '' @ [CHR 0x22]
            @ ''/tmp/out'' @ [CHR 0x22] @ ''.'' @ [CHR 0x0A, CHR 0x0A]),
       OutputReceived ''Failed to write output file.'', Done Error, Done Success])"
  by (simp add: extraction_def start_def gzipJob_def freshUnarchiver_def simulatedEnv_def fileName_def
      Let_def unarchiveCommand_def renderArg_def pathAppended_def runningMessage_def
      notify_def fileWrite_def toDoneResult_def)

text \<open>
  Claim C10. In the \<open>gzip\<close> branch, after any output notifications, the end of the
  process decides alone whether the output file stays: it is removed exactly when the
  verdict is failure, and the last event is \<open>done\<close> with the verdict. After a short
  write (reported by \<open>Failed to write output file.\<close>) and a successful end, the file
  is kept with the bytes that the writes took, and \<open>done(Success)\<close> is emitted.
\<close>

theorem gzip_file_removal_follows_verdict:
  assumes "m_process u = Some p" "slots p = GzipSlots outputFile"
    and "files u outputFile = Some content"
    and "\<forall>ev\<in>set evs. \<not> isProcessDone ev"
  shows "files (fst (deliver u (evs @ [ProcessDone success]))) outputFile
           = (if success then Some (content @ writtenBytes evs) else None)
       \<and> (\<exists>out. snd (deliver u (evs @ [ProcessDone success]))
                   = out @ [Done (toDoneResult success)])
       \<and> ((\<exists>ev\<in>set evs. \<not> writeComplete ev) \<longrightarrow>
            OutputReceived ''Failed to write output file.''
              \<in> set (snd (deliver u (evs @ [ProcessDone success]))))"
proof -
  have "(\<exists>ev\<in>set evs. \<not> writeComplete ev) \<longrightarrow>
            OutputReceived ''Failed to write output file.''
              \<in> set (snd (deliver u (evs @ [ProcessDone success])))"
    using short_write_reported [OF assms(1,2,4)]
    by (simp add: deliver_append_snd)
  with deliver_gzip_done [OF assms, of success] show ?thesis by simp
qed

theorem gzip_file_removal_follows_verdict_witness:
  "files (fst (deliver (fst (start (simulatedEnv True True) gzipJob))
                 [ReadyReadStandardOutput ''abcdef'' 3, ProcessDone True])) ''/tmp/out/data''
     = Some ''abc''
   \<and> snd (deliver (fst (start (simulatedEnv True True) gzipJob))
            [ReadyReadStandardOutput ''abcdef'' 3, ProcessDone True])
     = [OutputReceived ''Failed to write output file.'', Done Error, Done Success]"
  using gzip_file_removal_follows_verdict
          [of "fst (start (simulatedEnv True True) gzipJob)"
              "\<lparr>processCommand =
                  \<lparr>executable = ''/usr/bin/gzip'', arguments = [''-d'', ''/in/data.gz'', ''-c'']\<rparr>,
                workingDirectory = ''/tmp/out'', mergedChannels = False,
                slots = GzipSlots ''/tmp/out/data'', started = True\<rparr>"
              "''/tmp/out/data''" "[]" "[ReadyReadStandardOutput ''abcdef'' 3]" True]
  by (simp add: start_def gzipJob_def freshUnarchiver_def simulatedEnv_def fileName_def
      Let_def unarchiveCommand_def renderArg_def pathAppended_def
      notify_def fileWrite_def toDoneResult_def)

text \<open>
  Claim C7, as the code has it. In the \<open>gzip\<close> branch, when every write to the output
  file takes its whole chunk: after a successful end of the process the file at
  \<open>destDir/gzipFileDestName\<close> holds exactly the bytes the process wrote to its standard
  output, and after a failed end the file does not exist.
\<close>

theorem gzip_output_file_contents:
  assumes "m_process u = None" "m_sourceAndCommand u = Some (sourceFile, commandTemplate)"
    and "m_destDir u \<noteq> []" "fileName (executable commandTemplate) = ''gzip''"
    and "openWriteOnly env (pathAppended (m_destDir u) (m_gzipFileDestName u))"
    and "\<forall>ev\<in>set evs. \<not> isProcessDone ev \<and> writeComplete ev"
  shows "files (fst (extraction env u (evs @ [ProcessDone success])))
           (pathAppended (m_destDir u) (m_gzipFileDestName u))
         = (if success then Some (stdoutBytes evs) else None)"
proof -
  let ?f = "pathAppended (m_destDir u) (m_gzipFileDestName u)"
  define u' where "u' = fst (start env u)"
  from start_gzip_opened [OF assms(1-5)]
  obtain p where p: "m_process u' = Some p" "slots p = GzipSlots ?f"
    and f: "files u' ?f = Some []"
    unfolding u'_def by blast
  from assms(6) have nd: "\<forall>ev\<in>set evs. \<not> isProcessDone ev"
    and wc: "\<forall>ev\<in>set evs. writeComplete ev" by simp_all
  have "files (fst (deliver u' (evs @ [ProcessDone success]))) ?f
          = (if success then Some ([] @ writtenBytes evs) else None)"
    by (rule deliver_gzip_done(1) [OF p f nd])
  then show ?thesis
    using wc by (simp add: extraction_fst writtenBytes_complete u'_def)
qed

theorem gzip_output_file_contents_witness:
  "files (fst (extraction (simulatedEnv True True) gzipJob
                 [ReadyReadStandardOutput ''abc'' 3, ReadyReadStandardError ''note'',
                  ReadyReadStandardOutput ''def'' 3, ProcessDone True])) ''/tmp/out/data''
     = Some ''abcdef''
   \<and> files (fst (extraction (simulatedEnv True True) gzipJob
                 [ReadyReadStandardOutput ''abc'' 3, ProcessDone False])) ''/tmp/out/data''
     = None"
  using gzip_output_file_contents
          [of gzipJob "''/in/data.gz''"
              "\<lparr>executable = ''/usr/bin/gzip'', arguments = [''-d'', ''%{src}'', ''-c'']\<rparr>"
              "simulatedEnv True True"
              "[ReadyReadStandardOutput ''abc'' 3, ReadyReadStandardError ''note'',
                ReadyReadStandardOutput ''def'' 3]" True]
        gzip_output_file_contents
          [of gzipJob "''/in/data.gz''"
              "\<lparr>executable = ''/usr/bin/gzip'', arguments = [''-d'', ''%{src}'', ''-c'']\<rparr>"
              "simulatedEnv True True" "[ReadyReadStandardOutput ''abc'' 3]" False]
  by (simp add: gzipJob_def freshUnarchiver_def simulatedEnv_def fileName_def
      pathAppended_def)

text \<open>
  Claim C7 as stated fails: the process writes \<open>abcdef\<close> and succeeds, the file took
  three bytes of the write, and the file is kept holding \<open>abc\<close>.
\<close>

theorem gzip_short_write_counterexample:
  "stdoutBytes [ReadyReadStandardOutput ''abcdef'' 3] = ''abcdef''
   \<and> files (fst (extraction (simulatedEnv True True) gzipJob
                 [ReadyReadStandardOutput ''abcdef'' 3, ProcessDone True])) ''/tmp/out/data''
     = Some ''abc''"
  by (simp add: extraction_def start_def gzipJob_def freshUnarchiver_def simulatedEnv_def
      fileName_def Let_def unarchiveCommand_def renderArg_def pathAppended_def
      notify_def fileWrite_def toDoneResult_def)

end
